theory Spec2Isabelle
  imports Main
begin

section \<open>JavaScript values\<close>

text \<open>
  The worker \<^verbatim>\<open>sw.js\<close> handles untyped data: parsed JSON documents, messages from the
  pages and the records of the local database. They are modelled by one datatype of values.
  Numbers are mathematical integers together with \<open>NaN\<close> (step counts; fractions,
  infinities and the rounding of IEEE doubles are not represented). An object is the list of
  its own properties in insertion order. An array carries its elements and the named
  properties that an assignment such as \<^verbatim>\<open>data.timestamp = ...\<close> adds to it.
  Strings are lists of code units below 256.
\<close>

datatype jsval =
    Undefined
  | Null
  | JBool bool
  | JNum int
  | JNaN
  | JStr string
  | JObj "(string \<times> jsval) list"
  | JArr "jsval list" "(string \<times> jsval) list"

text \<open>Exceptions and rejected promises are values: the name of the error and its message.\<close>

datatype error_name =
    TypeError
  | ReferenceError
  | SyntaxError
  | DataError
  | ConstraintError
  | NotFoundError
  | VersionError

type_synonym error = "error_name \<times> string"

definition message :: "error \<Rightarrow> string" where
  "message e = snd e"

text \<open>\<^verbatim>\<open>!!v\<close>: the values that count as false are \<^verbatim>\<open>undefined\<close>, \<^verbatim>\<open>null\<close>,
  \<^verbatim>\<open>false\<close>, \<^verbatim>\<open>0\<close>, \<^verbatim>\<open>NaN\<close> and the empty string.\<close>

fun truthy :: "jsval \<Rightarrow> bool" where
  "truthy Undefined = False"
| "truthy Null = False"
| "truthy (JBool b) = b"
| "truthy (JNum n) = (n \<noteq> 0)"
| "truthy JNaN = False"
| "truthy (JStr s) = (s \<noteq> [])"
| "truthy (JObj fs) = True"
| "truthy (JArr es ps) = True"

text \<open>\<^verbatim>\<open>a || b\<close> on values without side effects.\<close>

definition js_or :: "jsval \<Rightarrow> jsval \<Rightarrow> jsval" where
  "js_or a b = (if truthy a then a else b)"

text \<open>
  \<^verbatim>\<open>v.name\<close>. Reading a property of \<^verbatim>\<open>undefined\<close> or \<^verbatim>\<open>null\<close> throws a
  TypeError. The worker only reads the names \<^verbatim>\<open>type\<close>, \<^verbatim>\<open>steps\<close>, \<^verbatim>\<open>value\<close>,
  \<^verbatim>\<open>date\<close>, \<^verbatim>\<open>source\<close>, \<^verbatim>\<open>metadata\<close>, \<^verbatim>\<open>timestamp\<close>, \<^verbatim>\<open>category\<close>,
  \<^verbatim>\<open>target\<close>, \<^verbatim>\<open>progress\<close>, \<^verbatim>\<open>data\<close> and the key path \<^verbatim>\<open>id\<close>, none of which
  is inherited from a built-in prototype, so a primitive has none of them and an object or
  array has exactly its own.
\<close>

fun get_prop :: "jsval \<Rightarrow> string \<Rightarrow> error + jsval" where
  "get_prop Undefined n = Inl (TypeError, ''Cannot read properties of undefined'')"
| "get_prop Null n = Inl (TypeError, ''Cannot read properties of null'')"
| "get_prop (JObj fs) n = Inr (case map_of fs n of None \<Rightarrow> Undefined | Some v \<Rightarrow> v)"
| "get_prop (JArr es ps) n = Inr (case map_of ps n of None \<Rightarrow> Undefined | Some v \<Rightarrow> v)"
| "get_prop v n = Inr Undefined"

text \<open>The same read where the value is known not to be \<^verbatim>\<open>undefined\<close> or \<^verbatim>\<open>null\<close>.\<close>

definition field :: "jsval \<Rightarrow> string \<Rightarrow> jsval" where
  "field v n = (case get_prop v n of Inl e \<Rightarrow> Undefined | Inr x \<Rightarrow> x)"

fun assign :: "string \<Rightarrow> jsval \<Rightarrow> (string \<times> jsval) list \<Rightarrow> (string \<times> jsval) list" where
  "assign n v [] = [(n, v)]"
| "assign n v ((k, w) # fs) = (if k = n then (k, v) # fs else (k, w) # assign n v fs)"

text \<open>
  \<^verbatim>\<open>v.name = x\<close>. The script has no strict-mode directive, so an assignment to a property
  of a primitive is ignored; on \<^verbatim>\<open>undefined\<close> and \<^verbatim>\<open>null\<close> it throws.
\<close>

fun set_prop :: "jsval \<Rightarrow> string \<Rightarrow> jsval \<Rightarrow> error + jsval" where
  "set_prop Undefined n x = Inl (TypeError, ''Cannot set properties of undefined'')"
| "set_prop Null n x = Inl (TypeError, ''Cannot set properties of null'')"
| "set_prop (JObj fs) n x = Inr (JObj (assign n x fs))"
| "set_prop (JArr es ps) n x = Inr (JArr es (assign n x ps))"
| "set_prop v n x = Inr v"

section \<open>String operations of the platform\<close>

fun starts_with :: "string \<Rightarrow> string \<Rightarrow> bool" where
  "starts_with [] s = True"
| "starts_with (p # ps) [] = False"
| "starts_with (p # ps) (c # cs) = (p = c \<and> starts_with ps cs)"

text \<open>\<^verbatim>\<open>s.includes(sub)\<close>\<close>

fun js_includes :: "string \<Rightarrow> string \<Rightarrow> bool" where
  "js_includes [] sub = (sub = [])"
| "js_includes (c # cs) sub = (starts_with sub (c # cs) \<or> js_includes cs sub)"

text \<open>\<^verbatim>\<open>s.split(sep)\<close> for a separator of one character: never the empty list.\<close>

fun js_split :: "char \<Rightarrow> string \<Rightarrow> string list" where
  "js_split sep [] = [[]]"
| "js_split sep (c # cs) =
     (if c = sep then [] # js_split sep cs
      else (case js_split sep cs of [] \<Rightarrow> [[c]] | w # ws \<Rightarrow> (c # w) # ws))"

text \<open>White space of \<^verbatim>\<open>trim\<close>, \<^verbatim>\<open>parseInt\<close> and the class \<^verbatim>\<open>\s\<close>, below 256.\<close>

definition is_space :: "char \<Rightarrow> bool" where
  "is_space c = (of_char c \<in> {9, 10, 11, 12, 13, 32, 160 :: nat})"

definition trim :: "string \<Rightarrow> string" where
  "trim s = rev (dropWhile is_space (rev (dropWhile is_space s)))"

definition digit_val :: "char \<Rightarrow> nat option" where
  "digit_val c =
     (let n = (of_char c :: nat) in
      if 48 \<le> n \<and> n \<le> 57 then Some (n - 48)
      else if 97 \<le> n \<and> n \<le> 122 then Some (n - 87)
      else if 65 \<le> n \<and> n \<le> 90 then Some (n - 55)
      else None)"

definition is_digit :: "char \<Rightarrow> bool" where
  "is_digit c = (48 \<le> (of_char c :: nat) \<and> (of_char c :: nat) \<le> 57)"

text \<open>The value of the longest prefix of digits of the radix; \<open>None\<close> when it is empty.\<close>

fun digits_value :: "nat \<Rightarrow> nat option \<Rightarrow> string \<Rightarrow> nat option" where
  "digits_value radix acc [] = acc"
| "digits_value radix acc (c # cs) =
     (case digit_val c of
        None \<Rightarrow> acc
      | Some d \<Rightarrow>
          if d < radix
          then digits_value radix (Some ((case acc of None \<Rightarrow> 0 | Some a \<Rightarrow> a) * radix + d)) cs
          else acc)"

text \<open>
  \<^verbatim>\<open>parseInt(str)\<close> without a radix: leading white space is skipped, a sign is read,
  a prefix \<^verbatim>\<open>0x\<close> selects radix 16, the longest prefix of digits is the value, and the
  result is \<^verbatim>\<open>NaN\<close> when there is no digit.
\<close>

definition parseInt :: "string \<Rightarrow> jsval" where
  "parseInt str =
     (let s = dropWhile is_space str;
          neg = starts_with ''-'' s;
          s1 = (if starts_with ''-'' s \<or> starts_with ''+'' s then drop 1 s else s);
          hex = (starts_with ''0x'' s1 \<or> starts_with ''0X'' s1);
          s2 = (if hex then drop 2 s1 else s1)
      in case digits_value (if hex then 16 else 10) None s2 of
           None \<Rightarrow> JNaN
         | Some n \<Rightarrow> JNum (if neg then - int n else int n))"

section \<open>Requests, responses and the environment\<close>

text \<open>
  A request as the fetch handler reads it: its URL, its method, the path and the query
  parameters of \<^verbatim>\<open>new URL(request.url)\<close>, its body text, and the result of
  \<^verbatim>\<open>request.formData()\<close> (\<open>None\<close> when the body is not form data and the promise
  rejects). A form entry is a string or a file, given by its text.
\<close>

datatype form_value = FString string | FFile string

record request =
  req_url :: string
  req_method :: string
  req_pathname :: string
  req_search :: "(string \<times> string) list"
  req_body :: string
  req_form :: "(string \<times> form_value) list option"

text \<open>A response body is a text, or the text that \<^verbatim>\<open>JSON.stringify\<close> makes of a value.\<close>

datatype body = Text string | Json jsval

record response =
  status :: int
  headers :: "(string \<times> string) list"
  content :: body

text \<open>
  What the worker takes from its surroundings: the clock (\<^verbatim>\<open>Date.now()\<close> and
  \<^verbatim>\<open>new Date().toISOString()\<close>, read as constant during one event), the local calendar
  date (which the worker never reads), \<^verbatim>\<open>JSON.parse\<close>, the network behind
  \<^verbatim>\<open>fetch\<close> (\<open>None\<close> when the fetch rejects), the pages that
  \<^verbatim>\<open>self.clients.matchAll()\<close> returns, and the conversions of strings and objects that
  \<^verbatim>\<open>+\<close>, \<^verbatim>\<open>Math.min\<close> and \<^verbatim>\<open>>=\<close> apply to operands that are not numbers.
\<close>

record env =
  now :: int
  toISOString :: string
  local_date :: string
  JSON_parse :: "string \<Rightarrow> error + jsval"
  network :: "request \<Rightarrow> response option"
  matchAll :: "nat list"
  Number_of :: "jsval \<Rightarrow> jsval"
  plus_of :: "jsval \<Rightarrow> jsval \<Rightarrow> jsval"

text \<open>\<^verbatim>\<open>new Date().toISOString().split('T')[0]\<close>: the calendar date in UTC.\<close>

definition today :: "env \<Rightarrow> string" where
  "today e = (case js_split (CHR ''T'') (toISOString e) of [] \<Rightarrow> [] | d # rest \<Rightarrow> d)"

section \<open>Parsing shared text\<close>

definition lower_case :: "char \<Rightarrow> char" where
  "lower_case c = (let n = (of_char c :: nat) in if 65 \<le> n \<and> n \<le> 90 then char_of (n + 32) else c)"

text \<open>
  One attempt of \<^verbatim>\<open>/(\d{1,5})\s*steps?/i\<close> at the start of a string: the matched text.
  The attempt is deterministic: \<^verbatim>\<open>\d{1,5}\<close> takes up to five digits, and with fewer
  digits or less white space than the greedy choice the next character is a digit or a
  space, which \<^verbatim>\<open>s\<close> does not match.
\<close>

definition match_steps_at :: "string \<Rightarrow> string option" where
  "match_steps_at s =
     (let ds = take 5 (takeWhile is_digit s);
          r1 = drop (length ds) s;
          ws = takeWhile is_space r1;
          r2 = drop (length ws) r1;
          r3 = drop 4 r2;
          opt = (if map lower_case (take 1 r3) = ''s'' then take 1 r3 else [])
      in if ds = [] then None
         else if map lower_case (take 4 r2) = ''step''
         then Some (ds @ ws @ take 4 r2 @ opt)
         else None)"

text \<open>
  \<^verbatim>\<open>text.match(/(\d{1,5})\s*steps?/gi)\<close>: the matches from left to right. After a match
  the search resumes behind it, so the characters of the match are skipped; the empty list
  stands for \<^verbatim>\<open>null\<close>.
\<close>

fun scan_steps :: "nat \<Rightarrow> string \<Rightarrow> string list" where
  "scan_steps skip [] = []"
| "scan_steps skip (c # cs) =
     (if 0 < skip then scan_steps (skip - 1) cs
      else (case match_steps_at (c # cs) of
              None \<Rightarrow> scan_steps 0 cs
            | Some m \<Rightarrow> m # scan_steps (length m - 1) cs))"

definition stepMatches :: "string \<Rightarrow> string list" where
  "stepMatches text = scan_steps 0 text"

text \<open>\<^verbatim>\<open>match.match(/\d+/)[0]\<close>: the first run of digits.\<close>

definition first_digits :: "string \<Rightarrow> string" where
  "first_digits m = takeWhile is_digit (dropWhile (\<lambda>c. \<not> is_digit c) m)"

text \<open>The body of the \<^verbatim>\<open>forEach\<close> over the lines of delimited text.\<close>

definition csv_line :: "nat \<times> string \<Rightarrow> jsval list" where
  "csv_line il =
     (case il of (index, line) \<Rightarrow>
        if index = 0 then []
        else (case js_split (CHR '','') line of
                p0 # p1 # ps \<Rightarrow>
                  [JObj [(''date'', JStr (trim p0)),
                         (''steps'', js_or (parseInt (trim p1)) (JNum 0)),
                         (''type'', JStr ''steps'')]]
              | parts \<Rightarrow> []))"

definition parseHealthDataText :: "env \<Rightarrow> string \<Rightarrow> jsval" where
  "parseHealthDataText e text =
     (let lines = js_split (CHR 0x0A) text in
      if js_includes text '',''
      then JArr (concat (map csv_line (enumerate 0 lines))) []
      else JArr (map (\<lambda>m. JObj [(''date'', JStr (today e)),
                                  (''steps'', parseInt (first_digits m)),
                                  (''type'', JStr ''steps'')])
                     (stepMatches text)) [])"

section \<open>The local database\<close>

text \<open>
  The part of IndexedDB that the worker uses. A key is a number, a string or an array of
  keys (JSON has no dates or binary data); numbers sort before strings, strings before
  arrays, strings by code units and arrays element by element.
\<close>

datatype idbkey = KNum int | KStr string | KArr "idbkey list"

fun to_key :: "jsval \<Rightarrow> idbkey option" where
  "to_key (JNum n) = Some (KNum n)"
| "to_key (JStr s) = Some (KStr s)"
| "to_key (JArr es ps) = map_option KArr (those (map to_key es))"
| "to_key v = None"

fun str_less :: "string \<Rightarrow> string \<Rightarrow> bool" where
  "str_less [] [] = False"
| "str_less [] (d # ds) = True"
| "str_less (c # cs) [] = False"
| "str_less (c # cs) (d # ds) =
     ((of_char c :: nat) < of_char d \<or> (c = d \<and> str_less cs ds))"

fun key_less :: "idbkey \<Rightarrow> idbkey \<Rightarrow> bool"
  and keys_less :: "idbkey list \<Rightarrow> idbkey list \<Rightarrow> bool" where
  "key_less (KNum a) (KNum b) = (a < b)"
| "key_less (KNum a) (KStr b) = True"
| "key_less (KNum a) (KArr b) = True"
| "key_less (KStr a) (KNum b) = False"
| "key_less (KStr a) (KStr b) = str_less a b"
| "key_less (KStr a) (KArr b) = True"
| "key_less (KArr a) (KNum b) = False"
| "key_less (KArr a) (KStr b) = False"
| "key_less (KArr a) (KArr b) = keys_less a b"
| "keys_less [] [] = False"
| "keys_less [] (y # ys) = True"
| "keys_less (x # xs) [] = False"
| "keys_less (x # xs) (y # ys) = (key_less x y \<or> (x = y \<and> keys_less xs ys))"

fun insort_by :: "('a \<Rightarrow> 'a \<Rightarrow> bool) \<Rightarrow> 'a \<Rightarrow> 'a list \<Rightarrow> 'a list" where
  "insort_by lt x [] = [x]"
| "insort_by lt x (y # ys) = (if lt y x then y # insort_by lt x ys else x # y # ys)"

definition sort_by :: "('a \<Rightarrow> 'a \<Rightarrow> bool) \<Rightarrow> 'a list \<Rightarrow> 'a list" where
  "sort_by lt xs = foldr (insort_by lt) xs []"

text \<open>
  An object store: its key path, whether it has a key generator, its indexes (name, key
  path, unique), the current number of the generator and its records in the order in which
  they were first written.
\<close>

record object_store =
  keyPath :: string
  autoIncrement :: bool
  indexes :: "(string \<times> string \<times> bool) list"
  keygen :: int
  entries :: "(idbkey \<times> jsval) list"

record database =
  db_version :: int
  stores :: "(string \<times> object_store) list"

definition is_object :: "jsval \<Rightarrow> bool" where
  "is_object v = (case v of JObj fs \<Rightarrow> True | JArr es ps \<Rightarrow> True | other \<Rightarrow> False)"

fun replace_entry :: "idbkey \<Rightarrow> jsval \<Rightarrow> (idbkey \<times> jsval) list \<Rightarrow> (idbkey \<times> jsval) list" where
  "replace_entry k v [] = [(k, v)]"
| "replace_entry k v ((k', w) # es) =
     (if k' = k then (k', v) # es else (k', w) # replace_entry k v es)"

text \<open>
  Storing a record under a key: \<^verbatim>\<open>add\<close> (no overwrite) fails with a ConstraintError when
  the key is taken, \<^verbatim>\<open>put\<close> replaces the record.
\<close>

definition store_record ::
  "bool \<Rightarrow> idbkey \<Rightarrow> jsval \<Rightarrow> object_store \<Rightarrow> error + (idbkey \<times> object_store)" where
  "store_record overwrite k v st =
     (if k \<in> set (map fst (entries st)) \<and> \<not> overwrite
      then Inl (ConstraintError, ''Key already exists in the object store'')
      else Inr (k, st\<lparr>entries := replace_entry k v (entries st)\<rparr>))"

text \<open>
  \<^verbatim>\<open>store.add(value)\<close> and \<^verbatim>\<open>store.put(value)\<close> on a store with a key path. When the
  value has the key property, its value must be a valid key, and a number that is not
  below the generator's current number moves the generator past it. When it has not, the
  store needs a generator and the value must be an object or array: the generated key is
  written into the stored copy. A request that fails leaves the store as it was.
\<close>

definition store_write :: "bool \<Rightarrow> object_store \<Rightarrow> jsval \<Rightarrow> error + (idbkey \<times> object_store)" where
  "store_write overwrite st v =
     (if field v (keyPath st) = Undefined
      then (if autoIncrement st \<and> is_object v
            then (case set_prop v (keyPath st) (JNum (keygen st)) of
                    Inl e \<Rightarrow> Inl e
                  | Inr stored \<Rightarrow>
                      store_record overwrite (KNum (keygen st)) stored
                        (st\<lparr>keygen := keygen st + 1\<rparr>))
            else Inl (DataError, ''The key could not be injected into the value''))
      else (case to_key (field v (keyPath st)) of
              None \<Rightarrow> Inl (DataError, ''The key path did not yield a valid key'')
            | Some k \<Rightarrow>
                store_record overwrite k v
                  (case k of
                     KNum n \<Rightarrow>
                       if autoIncrement st \<and> keygen st \<le> n then st\<lparr>keygen := n + 1\<rparr> else st
                   | other \<Rightarrow> st)))"

text \<open>\<^verbatim>\<open>store.getAll()\<close>: the records in the order of their keys.\<close>

definition store_getAll :: "object_store \<Rightarrow> jsval list" where
  "store_getAll st = map snd (sort_by (\<lambda>a b. key_less (fst a) (fst b)) (entries st))"

text \<open>\<^verbatim>\<open>store.get(id)\<close>\<close>

definition store_get :: "object_store \<Rightarrow> idbkey \<Rightarrow> jsval" where
  "store_get st k = (case map_of (entries st) k of None \<Rightarrow> Undefined | Some v \<Rightarrow> v)"

text \<open>
  \<^verbatim>\<open>IDBKeyRange.bound(lower, upper)\<close> throws a DataError when the lower bound is above the
  upper one. \<^verbatim>\<open>index.getAll(range)\<close> returns the records whose index key path holds a
  valid key within the closed range, in the order of the index key and then of the
  primary key.
\<close>

definition IDBKeyRange_bound :: "idbkey \<Rightarrow> idbkey \<Rightarrow> error + (idbkey \<times> idbkey)" where
  "IDBKeyRange_bound lower upper =
     (if key_less upper lower
      then Inl (DataError, ''The lower key is greater than the upper key'')
      else Inr (lower, upper))"

definition store_index :: "object_store \<Rightarrow> string \<Rightarrow> error + string" where
  "store_index st name =
     (case map_of (indexes st) name of
        None \<Rightarrow> Inl (NotFoundError, ''The specified index was not found'')
      | Some (path, unique) \<Rightarrow> Inr path)"

definition index_getAll :: "object_store \<Rightarrow> string \<Rightarrow> idbkey \<times> idbkey \<Rightarrow> jsval list" where
  "index_getAll st path bounds =
     map (\<lambda>r. snd (snd r))
       (sort_by (\<lambda>a b. key_less (fst a) (fst b) \<or> (fst a = fst b \<and> key_less (fst (snd a)) (fst (snd b))))
          (concat (map (\<lambda>kv. case to_key (field (snd kv) path) of
                                None \<Rightarrow> []
                              | Some ik \<Rightarrow>
                                  if key_less ik (fst bounds) \<or> key_less (snd bounds) ik then []
                                  else [(ik, kv)])
                       (entries st))))"

section \<open>The state of the worker\<close>

text \<open>
  What the worker can change: the database \<^verbatim>\<open>QuestTrackerHealthDB\<close> (absent until it is
  first opened), the caches of the origin by name (each a list of URL and stored response),
  and the messages posted so far, each with the page it was posted to.
\<close>

record sw_state =
  idb :: "database option"
  caches :: "(string \<times> (string \<times> response) list) list"
  posted :: "(nat \<times> jsval) list"

text \<open>An asynchronous operation returns a value or rejects, and leaves a state either way.\<close>

type_synonym 'a result = "(error + 'a) \<times> sw_state"

text \<open>\<^verbatim>\<open>await\<close>: the rest of the function runs on the value, an error ends it.\<close>

definition await :: "'a result \<Rightarrow> ('a \<Rightarrow> sw_state \<Rightarrow> 'b result) \<Rightarrow> 'b result" where
  "await r f = (case r of (Inl e, s) \<Rightarrow> (Inl e, s) | (Inr x, s) \<Rightarrow> f x s)"

definition CACHE_NAME :: string where
  "CACHE_NAME = ''quest-tracker-v3''"

definition DATA_CACHE_NAME :: string where
  "DATA_CACHE_NAME = ''quest-data-v2''"

definition HEALTH_CACHE_NAME :: string where
  "HEALTH_CACHE_NAME = ''health-data-v1''"

definition DB_NAME :: string where
  "DB_NAME = ''QuestTrackerHealthDB''"

definition DB_VERSION :: int where
  "DB_VERSION = 1"

definition STORES :: "(string \<times> string) list" where
  "STORES =
     [(''STEPS'', ''steps''),
      (''HEALTH_DATA'', ''healthData''),
      (''QUESTS'', ''quests''),
      (''HABITS'', ''habits''),
      (''ACHIEVEMENTS'', ''achievements'')]"

text \<open>\<^verbatim>\<open>STORES.STEPS\<close>, \<^verbatim>\<open>STORES.HEALTH_DATA\<close> and \<^verbatim>\<open>STORES.QUESTS\<close>\<close>

definition STORES_STEPS :: string where
  "STORES_STEPS = ''steps''"

definition STORES_HEALTH_DATA :: string where
  "STORES_HEALTH_DATA = ''healthData''"

definition STORES_QUESTS :: string where
  "STORES_QUESTS = ''quests''"

subsection \<open>initDB\<close>

text \<open>
  The body of the \<^verbatim>\<open>forEach\<close> in \<^verbatim>\<open>onupgradeneeded\<close>: a store that does not exist yet is
  created with the key path \<^verbatim>\<open>id\<close> and a key generator, and gets the indexes of its name.
\<close>

definition createObjectStore :: "string \<Rightarrow> object_store" where
  "createObjectStore storeName =
     (let store = \<lparr>keyPath = ''id'', autoIncrement = True, indexes = [], keygen = 1, entries = []\<rparr>
      in if storeName = STORES_STEPS
         then store\<lparr>indexes := [(''date'', ''date'', False), (''timestamp'', ''timestamp'', False)]\<rparr>
         else if storeName = STORES_HEALTH_DATA
         then store\<lparr>indexes := [(''type'', ''type'', False), (''date'', ''date'', False)]\<rparr>
         else if storeName = STORES_QUESTS
         then store\<lparr>indexes := [(''category'', ''category'', False), (''status'', ''status'', False)]\<rparr>
         else store)"

definition onupgradeneeded :: "(string \<times> object_store) list \<Rightarrow> (string \<times> object_store) list" where
  "onupgradeneeded db =
     fold (\<lambda>storeName db.
             if storeName \<in> set (map fst db) then db
             else db @ [(storeName, createObjectStore storeName)])
          (map snd STORES) db"

text \<open>
  \<^verbatim>\<open>indexedDB.open(DB_NAME, DB_VERSION)\<close>: a database that does not exist, or has a lower
  version, is upgraded; a higher version is an error; otherwise the database is returned
  as it is.
\<close>

definition initDB :: "sw_state \<Rightarrow> database result" where
  "initDB s =
     (case idb s of
        None \<Rightarrow>
          (let db = \<lparr>db_version = DB_VERSION, stores = onupgradeneeded []\<rparr>
           in (Inr db, s\<lparr>idb := Some db\<rparr>))
      | Some d \<Rightarrow>
          if db_version d < DB_VERSION
          then (let db = \<lparr>db_version = DB_VERSION, stores = onupgradeneeded (stores d)\<rparr>
                in (Inr db, s\<lparr>idb := Some db\<rparr>))
          else if DB_VERSION < db_version d
          then (Inl (VersionError, ''The requested version is less than the existing version''), s)
          else (Inr d, s))"

subsection \<open>Database operations\<close>

text \<open>\<^verbatim>\<open>db.transaction([storeName], mode).objectStore(storeName)\<close>\<close>

definition objectStore :: "database \<Rightarrow> string \<Rightarrow> error + object_store" where
  "objectStore db storeName =
     (case map_of (stores db) storeName of
        None \<Rightarrow> Inl (NotFoundError, ''One of the specified object stores was not found'')
      | Some store \<Rightarrow> Inr store)"

definition commit :: "string \<Rightarrow> object_store \<Rightarrow> sw_state \<Rightarrow> sw_state" where
  "commit storeName store s =
     s\<lparr>idb := map_option
          (\<lambda>d. d\<lparr>stores := map (\<lambda>ns. if fst ns = storeName then (fst ns, store) else ns) (stores d)\<rparr>)
          (idb s)\<rparr>"

text \<open>
  \<^verbatim>\<open>saveToStore\<close> returns the key of the new record. It writes \<^verbatim>\<open>timestamp\<close> into the
  caller's object, which the model returns as well.
\<close>

definition saveToStore :: "env \<Rightarrow> string \<Rightarrow> jsval \<Rightarrow> sw_state \<Rightarrow> (idbkey \<times> jsval) result" where
  "saveToStore e storeName data s =
     await (initDB s) (\<lambda>db s.
     await (objectStore db storeName, s) (\<lambda>store s.
     await (get_prop data ''timestamp'', s) (\<lambda>timestamp s.
     await (if \<not> truthy timestamp then set_prop data ''timestamp'' (JNum (now e)) else Inr data, s)
       (\<lambda>data s.
     await (store_write False store data, s) (\<lambda>written s.
       (Inr (fst written, data), commit storeName (snd written) s))))))"

definition updateInStore :: "env \<Rightarrow> string \<Rightarrow> jsval \<Rightarrow> sw_state \<Rightarrow> (idbkey \<times> jsval) result" where
  "updateInStore e storeName data s =
     await (initDB s) (\<lambda>db s.
     await (objectStore db storeName, s) (\<lambda>store s.
     await (set_prop data ''updatedAt'' (JNum (now e)), s) (\<lambda>data s.
     await (store_write True store data, s) (\<lambda>written s.
       (Inr (fst written, data), commit storeName (snd written) s)))))"

definition getFromStore :: "string \<Rightarrow> jsval \<Rightarrow> sw_state \<Rightarrow> jsval result" where
  "getFromStore storeName ident s =
     await (initDB s) (\<lambda>db s.
     await (objectStore db storeName, s) (\<lambda>store s.
       (case to_key ident of
          None \<Rightarrow> (Inl (DataError, ''The parameter is not a valid key''), s)
        | Some k \<Rightarrow> (Inr (store_get store k), s))))"

definition getAllFromStore :: "string \<Rightarrow> sw_state \<Rightarrow> jsval list result" where
  "getAllFromStore storeName s =
     await (initDB s) (\<lambda>db s.
     await (objectStore db storeName, s) (\<lambda>store s.
       (Inr (store_getAll store), s)))"

text \<open>
  An identifier is looked up in the bindings in scope; one that is bound nowhere throws a
  ReferenceError. Where \<^verbatim>\<open>getStepsByDateRange\<close> reads \<^verbatim>\<open>storeName\<close>, the names that hold a
  string are its two parameters and the four string constants at the top of the script (the
  others in scope, \<^verbatim>\<open>db\<close>, \<^verbatim>\<open>transaction\<close>, \<^verbatim>\<open>STORES\<close>, \<^verbatim>\<open>FILES_TO_CACHE\<close>,
  \<^verbatim>\<open>DB_VERSION\<close> and the functions, hold none; the parameter \<^verbatim>\<open>storeName\<close> of the
  other functions and of the callback in \<^verbatim>\<open>initDB\<close> is local to them).
\<close>

definition lookup_identifier :: "(string \<times> 'a) list \<Rightarrow> string \<Rightarrow> error + 'a" where
  "lookup_identifier scope name =
     (case map_of scope name of
        None \<Rightarrow> Inl (ReferenceError, name @ '' is not defined'')
      | Some v \<Rightarrow> Inr v)"

definition scope_getStepsByDateRange :: "string \<Rightarrow> string \<Rightarrow> (string \<times> string) list" where
  "scope_getStepsByDateRange startDate endDate =
     [(''startDate'', startDate), (''endDate'', endDate),
      (''CACHE_NAME'', CACHE_NAME), (''DATA_CACHE_NAME'', DATA_CACHE_NAME),
      (''HEALTH_CACHE_NAME'', HEALTH_CACHE_NAME), (''DB_NAME'', DB_NAME)]"

text \<open>
  The transaction is opened over \<^verbatim>\<open>[STORES.STEPS]\<close>, and the store is then asked for under
  the name \<^verbatim>\<open>storeName\<close>: a store outside the transaction's scope is a NotFoundError.
\<close>

definition getStepsByDateRange :: "string \<Rightarrow> string \<Rightarrow> sw_state \<Rightarrow> jsval list result" where
  "getStepsByDateRange startDate endDate s =
     await (initDB s) (\<lambda>db s.
     await (objectStore db STORES_STEPS, s) (\<lambda>transaction s.
     await (lookup_identifier (scope_getStepsByDateRange startDate endDate) ''storeName'', s) (\<lambda>storeName s.
     await (if storeName = STORES_STEPS then Inr transaction
            else Inl (NotFoundError, ''The specified object store was not found''), s) (\<lambda>store s.
     await (store_index store ''date'', s) (\<lambda>index s.
     await (IDBKeyRange_bound (KStr startDate) (KStr endDate), s) (\<lambda>bounds s.
       (Inr (index_getAll store index bounds), s)))))))"

section \<open>Quest reconciliation\<close>

text \<open>
  Arithmetic on values. On numbers, \<^verbatim>\<open>undefined\<close>, \<^verbatim>\<open>null\<close> and booleans the operators
  are defined here; the conversion of a string, object or array to a number, and \<^verbatim>\<open>+\<close>
  with such an operand (a concatenation), are those of the environment.
\<close>

definition ToNumber :: "env \<Rightarrow> jsval \<Rightarrow> jsval" where
  "ToNumber e v =
     (case v of
        Undefined \<Rightarrow> JNaN
      | Null \<Rightarrow> JNum 0
      | JBool b \<Rightarrow> JNum (if b then 1 else 0)
      | JNum n \<Rightarrow> JNum n
      | JNaN \<Rightarrow> JNaN
      | other \<Rightarrow> Number_of e other)"

definition num_of :: "jsval \<Rightarrow> int option" where
  "num_of v = (case v of JNum n \<Rightarrow> Some n | other \<Rightarrow> None)"

definition plain :: "jsval \<Rightarrow> bool" where
  "plain v = (case v of JStr x \<Rightarrow> False | JObj fs \<Rightarrow> False | JArr es ps \<Rightarrow> False | other \<Rightarrow> True)"

definition js_plus :: "env \<Rightarrow> jsval \<Rightarrow> jsval \<Rightarrow> jsval" where
  "js_plus e a b =
     (if plain a \<and> plain b
      then (case (num_of (ToNumber e a), num_of (ToNumber e b)) of
              (Some x, Some y) \<Rightarrow> JNum (x + y)
            | other \<Rightarrow> JNaN)
      else plus_of e a b)"

definition Math_min :: "env \<Rightarrow> jsval \<Rightarrow> jsval \<Rightarrow> jsval" where
  "Math_min e a b =
     (case (num_of (ToNumber e a), num_of (ToNumber e b)) of
        (Some x, Some y) \<Rightarrow> JNum (min x y)
      | other \<Rightarrow> JNaN)"

text \<open>\<^verbatim>\<open>a >= b\<close> where \<^verbatim>\<open>a\<close> is a number, as the result of \<^verbatim>\<open>Math.min\<close> is: both sides
  are compared as numbers, and a comparison with \<^verbatim>\<open>NaN\<close> is false.\<close>

definition js_ge :: "env \<Rightarrow> jsval \<Rightarrow> jsval \<Rightarrow> bool" where
  "js_ge e a b =
     (case (num_of (ToNumber e a), num_of (ToNumber e b)) of
        (Some x, Some y) \<Rightarrow> y \<le> x
      | other \<Rightarrow> False)"

text \<open>\<^verbatim>\<open>todaySteps.reduce((sum, entry) => sum + entry.steps, 0)\<close>\<close>

fun reduce_steps :: "env \<Rightarrow> jsval list \<Rightarrow> jsval \<Rightarrow> error + jsval" where
  "reduce_steps e [] acc = Inr acc"
| "reduce_steps e (entry # rest) acc =
     (case get_prop entry ''steps'' of
        Inl err \<Rightarrow> Inl err
      | Inr steps \<Rightarrow> reduce_steps e rest (js_plus e acc steps))"

text \<open>\<^verbatim>\<open>self.clients.matchAll()\<close> and \<^verbatim>\<open>client.postMessage(msg)\<close> for each client.\<close>

definition broadcast :: "env \<Rightarrow> jsval \<Rightarrow> sw_state \<Rightarrow> sw_state" where
  "broadcast e msg s = s\<lparr>posted := posted s @ map (\<lambda>client. (client, msg)) (matchAll e)\<rparr>"

text \<open>
  The body of the loop over the quests, up to the flag \<^verbatim>\<open>updated\<close>: the quest as the body
  leaves it, and the flag.
\<close>

definition recomputeQuest :: "env \<Rightarrow> jsval \<Rightarrow> jsval \<Rightarrow> error + (jsval \<times> bool)" where
  "recomputeQuest e totalStepsToday quest =
     (case get_prop quest ''category'' of
        Inl err \<Rightarrow> Inl err
      | Inr category \<Rightarrow>
          if category = JStr ''fitness'' \<or> field quest ''type'' = JStr ''steps''
          then (let target = field quest ''target'' in
                if truthy target \<and> truthy (field target ''steps'')
                then (case set_prop quest ''progress'' (Math_min e totalStepsToday (field target ''steps'')) of
                        Inl err \<Rightarrow> Inl err
                      | Inr quest1 \<Rightarrow>
                          (case set_prop quest1 ''completed''
                                  (JBool (js_ge e (field quest1 ''progress'')
                                                  (field (field quest1 ''target'') ''steps''))) of
                             Inl err \<Rightarrow> Inl err
                           | Inr quest2 \<Rightarrow> Inr (quest2, True)))
                else Inr (quest, False))
          else Inr (quest, False))"

text \<open>The whole body: a quest that was updated is written back with \<^verbatim>\<open>updateInStore\<close>.\<close>

definition updateQuest :: "env \<Rightarrow> jsval \<Rightarrow> jsval \<Rightarrow> sw_state \<Rightarrow> jsval result" where
  "updateQuest e totalStepsToday quest s =
     await (recomputeQuest e totalStepsToday quest, s) (\<lambda>recomputed s.
       if snd recomputed
       then await (updateInStore e STORES_QUESTS (fst recomputed) s) (\<lambda>written s. (Inr (snd written), s))
       else (Inr (fst recomputed), s))"

text \<open>The loop \<^verbatim>\<open>for (const quest of quests)\<close>; it returns the quests as it leaves them.\<close>

fun updateStepQuests :: "env \<Rightarrow> jsval \<Rightarrow> jsval list \<Rightarrow> sw_state \<Rightarrow> jsval list result" where
  "updateStepQuests e totalStepsToday [] s = (Inr [], s)"
| "updateStepQuests e totalStepsToday (quest # rest) s =
     (case updateQuest e totalStepsToday quest s of
        (Inl err, s1) \<Rightarrow> (Inl err, s1)
      | (Inr quest1, s1) \<Rightarrow>
          (case updateStepQuests e totalStepsToday rest s1 of
             (Inl err, s2) \<Rightarrow> (Inl err, s2)
           | (Inr rest1, s2) \<Rightarrow> (Inr (quest1 # rest1), s2)))"

text \<open>
  \<^verbatim>\<open>updateQuestProgress\<close>. Its body is one \<^verbatim>\<open>try\<close> block whose \<^verbatim>\<open>catch\<close> only logs, so
  an error ends the run and the state stays as the run left it.
\<close>

definition updateQuestProgress :: "env \<Rightarrow> sw_state \<Rightarrow> sw_state" where
  "updateQuestProgress e s =
     snd (await (getAllFromStore STORES_QUESTS s) (\<lambda>quests s.
          await (getStepsByDateRange (today e) (today e) s) (\<lambda>todaySteps s.
          await (reduce_steps e todaySteps (JNum 0), s) (\<lambda>totalStepsToday s.
          await (updateStepQuests e totalStepsToday quests s) (\<lambda>quests s.
            (Inr (),
             broadcast e
               (JObj [(''type'', JStr ''QUEST_PROGRESS_UPDATED''),
                      (''data'', JObj [(''totalStepsToday'', totalStepsToday),
                                       (''updatedQuests'',
                                        JArr (filter (\<lambda>q. field q ''category'' = JStr ''fitness'') quests) [])])])
               s))))))"

section \<open>Ingestion of shared health data\<close>

text \<open>
  The body of the loop in \<^verbatim>\<open>processHealthData\<close>. It returns the element as the loop leaves
  it: \<^verbatim>\<open>saveToStore\<close> writes \<^verbatim>\<open>timestamp\<close> into an element that is stored as it is.
\<close>

definition processItem :: "env \<Rightarrow> jsval \<Rightarrow> sw_state \<Rightarrow> jsval result" where
  "processItem e item s =
     await (get_prop item ''type'', s) (\<lambda>item_type s.
       if item_type = JStr ''steps'' \<or> field item ''steps'' \<noteq> Undefined
       then await (saveToStore e STORES_STEPS
                     (JObj [(''date'', js_or (field item ''date'') (JStr (today e))),
                            (''steps'', js_or (field item ''steps'') (js_or (field item ''value'') (JNum 0))),
                            (''source'', js_or (field item ''source'') (JStr ''shared'')),
                            (''metadata'', js_or (field item ''metadata'') (JObj []))])
                     s)
              (\<lambda>saved s. (Inr item, s))
       else await (saveToStore e STORES_HEALTH_DATA item s) (\<lambda>saved s. (Inr (snd saved), s)))"

fun processItems :: "env \<Rightarrow> jsval list \<Rightarrow> sw_state \<Rightarrow> jsval list result" where
  "processItems e [] s = (Inr [], s)"
| "processItems e (item # rest) s =
     (case processItem e item s of
        (Inl err, s1) \<Rightarrow> (Inl err, s1)
      | (Inr item1, s1) \<Rightarrow>
          (case processItems e rest s1 of
             (Inl err, s2) \<Rightarrow> (Inl err, s2)
           | (Inr rest1, s2) \<Rightarrow> (Inr (item1 # rest1), s2)))"

text \<open>\<^verbatim>\<open>processHealthData\<close> returns the caller's value as the function leaves it.\<close>

definition processHealthData :: "env \<Rightarrow> jsval \<Rightarrow> sw_state \<Rightarrow> jsval result" where
  "processHealthData e healthData s =
     (case healthData of
        JArr items props \<Rightarrow>
          await (processItems e items s) (\<lambda>items s.
            (Inr (JArr items props), updateQuestProgress e s))
      | other \<Rightarrow>
          await (processItems e [healthData] s) (\<lambda>items s.
            (Inr (case items of [] \<Rightarrow> healthData | item # rest \<Rightarrow> item), updateQuestProgress e s)))"

text \<open>\<^verbatim>\<open>try { healthData = JSON.parse(text) } catch (e) { healthData = parseHealthDataText(text) }\<close>\<close>

definition parse_shared :: "env \<Rightarrow> string \<Rightarrow> jsval" where
  "parse_shared e text =
     (case JSON_parse e text of
        Inl err \<Rightarrow> parseHealthDataText e text
      | Inr v \<Rightarrow> v)"

text \<open>\<^verbatim>\<open>formData.get(name)\<close> is \<^verbatim>\<open>null\<close> for a missing entry; an empty string is false.\<close>

definition form_truthy :: "form_value option \<Rightarrow> bool" where
  "form_truthy v =
     (case v of None \<Rightarrow> False | Some (FString t) \<Rightarrow> t \<noteq> [] | Some (FFile f) \<Rightarrow> True)"

definition redirect :: "string \<Rightarrow> int \<Rightarrow> response" where
  "redirect location code = \<lparr>status = code, headers = [(''Location'', location)], content = Text []\<rparr>"

text \<open>
  \<^verbatim>\<open>handleSharedData\<close>. An entry \<^verbatim>\<open>healthData\<close> that is a string has no method
  \<^verbatim>\<open>text\<close>, and an entry \<^verbatim>\<open>text\<close> that is a file is read by \<^verbatim>\<open>JSON.parse\<close> as
  \<^verbatim>\<open>[object File]\<close> and has no method \<^verbatim>\<open>split\<close>: both throw a TypeError.
\<close>

definition handleSharedData :: "env \<Rightarrow> request \<Rightarrow> sw_state \<Rightarrow> response \<times> sw_state" where
  "handleSharedData e request s =
     (case
        await (case req_form request of
                 None \<Rightarrow> Inl (TypeError, ''Failed to parse the body as FormData'')
               | Some fd \<Rightarrow> Inr fd, s) (\<lambda>formData s.
        (let text = map_of formData ''text'';
             healthDataFile = map_of formData ''healthData''
         in
        await (if form_truthy healthDataFile
               then (case healthDataFile of
                       Some (FFile fileText) \<Rightarrow> Inr (parse_shared e fileText)
                     | other \<Rightarrow> Inl (TypeError, ''healthDataFile.text is not a function''))
               else if form_truthy text
               then (case text of
                       Some (FString t) \<Rightarrow> Inr (parse_shared e t)
                     | other \<Rightarrow>
                         (case JSON_parse e ''[object File]'' of
                            Inl err \<Rightarrow> Inl (TypeError, ''text.split is not a function'')
                          | Inr v \<Rightarrow> Inr v))
               else Inr Null, s) (\<lambda>healthData s.
        if truthy healthData
        then await (processHealthData e healthData s) (\<lambda>healthData s.
               (Inr (redirect ''/'' 302),
                broadcast e (JObj [(''type'', JStr ''HEALTH_DATA_RECEIVED''), (''data'', healthData)]) s))
        else (Inr (redirect ''/'' 302), s))))
      of
        (Inl err, s1) \<Rightarrow>
          (\<lparr>status = 500, headers = [], content = Text ''Error processing health data''\<rparr>, s1)
      | (Inr r, s1) \<Rightarrow> (r, s1))"

section \<open>The health API\<close>

definition json_response :: "jsval \<Rightarrow> response" where
  "json_response v =
     \<lparr>status = 200, headers = [(''Content-Type'', ''application/json'')], content = Json v\<rparr>"

definition not_found :: response where
  "not_found = \<lparr>status = 404, headers = [], content = Text ''Not Found''\<rparr>"

text \<open>\<^verbatim>\<open>params.get(name)\<close> is \<^verbatim>\<open>null\<close> for a missing parameter; an empty string is false.\<close>

definition param_truthy :: "string option \<Rightarrow> bool" where
  "param_truthy v = (case v of None \<Rightarrow> False | Some t \<Rightarrow> t \<noteq> [])"

definition param_string :: "string option \<Rightarrow> string" where
  "param_string v = (case v of None \<Rightarrow> [] | Some t \<Rightarrow> t)"

definition handleHealthAPI :: "env \<Rightarrow> request \<Rightarrow> sw_state \<Rightarrow> response \<times> sw_state" where
  "handleHealthAPI e request s =
     (case
        (if req_method request = ''GET''
         then (if js_includes (req_pathname request) ''/steps''
               then (let startDate = map_of (req_search request) ''startDate'';
                         endDate = map_of (req_search request) ''endDate''
                     in await (if param_truthy startDate \<and> param_truthy endDate
                               then getStepsByDateRange (param_string startDate) (param_string endDate) s
                               else getAllFromStore STORES_STEPS s) (\<lambda>stepsData s.
                          (Inr (json_response (JArr stepsData [])), s)))
               else if js_includes (req_pathname request) ''/health''
               then await (getAllFromStore STORES_HEALTH_DATA s) (\<lambda>healthData s.
                      (Inr (json_response (JArr healthData [])), s))
               else (Inr not_found, s))
         else if req_method request = ''POST''
         then await (JSON_parse e (req_body request), s) (\<lambda>data s.
                if js_includes (req_pathname request) ''/steps''
                then await (saveToStore e STORES_STEPS data s) (\<lambda>saved s.
                       (Inr (json_response (JObj [(''success'', JBool True)])), s))
                else if js_includes (req_pathname request) ''/health''
                then await (saveToStore e STORES_HEALTH_DATA data s) (\<lambda>saved s.
                       (Inr (json_response (JObj [(''success'', JBool True)])), s))
                else (Inr not_found, s))
         else (Inr not_found, s))
      of
        (Inl err, s1) \<Rightarrow>
          (\<lparr>status = 500, headers = [(''Content-Type'', ''application/json'')],
            content = Json (JObj [(''error'', JStr (message err))])\<rparr>, s1)
      | (Inr r, s1) \<Rightarrow> (r, s1))"

section \<open>Caches and the event handlers\<close>

text \<open>
  The Cache API as the worker uses it. \<^verbatim>\<open>caches.open(name)\<close> creates the cache when it
  does not exist. \<^verbatim>\<open>cache.put(url, response)\<close> with a URL string stores the response
  under a GET request for that URL and replaces an earlier one. \<^verbatim>\<open>cache.match(request)\<close>
  with a request object whose method is not GET resolves to \<^verbatim>\<open>undefined\<close> (the first
  step of the Cache interface's matching, \<^verbatim>\<open>ignoreMethod\<close> being false); otherwise it is
  the response stored for the URL. Headers play no part in this model.
\<close>

definition cache_of :: "string \<Rightarrow> sw_state \<Rightarrow> (string \<times> response) list" where
  "cache_of name s = (case map_of (caches s) name of None \<Rightarrow> [] | Some c \<Rightarrow> c)"

definition caches_open :: "string \<Rightarrow> sw_state \<Rightarrow> sw_state" where
  "caches_open name s =
     (if name \<in> set (map fst (caches s)) then s else s\<lparr>caches := caches s @ [(name, [])]\<rparr>)"

fun replace_response :: "string \<Rightarrow> response \<Rightarrow> (string \<times> response) list \<Rightarrow> (string \<times> response) list" where
  "replace_response u r [] = [(u, r)]"
| "replace_response u r ((k, w) # rest) =
     (if k = u then (k, r) # rest else (k, w) # replace_response u r rest)"

definition cache_put :: "string \<Rightarrow> string \<Rightarrow> response \<Rightarrow> sw_state \<Rightarrow> sw_state" where
  "cache_put name u r s =
     s\<lparr>caches := map (\<lambda>nc. if fst nc = name then (fst nc, replace_response u r (snd nc)) else nc)
                    (caches s)\<rparr>"

definition cache_match :: "(string \<times> response) list \<Rightarrow> request \<Rightarrow> response option" where
  "cache_match cache request =
     (if req_method request = ''GET'' then map_of cache (req_url request) else None)"

definition caches_delete :: "string \<Rightarrow> sw_state \<Rightarrow> sw_state" where
  "caches_delete key s = s\<lparr>caches := filter (\<lambda>nc. fst nc \<noteq> key) (caches s)\<rparr>"

text \<open>
  The \<^verbatim>\<open>fetch\<close> handler: what \<^verbatim>\<open>event.respondWith\<close> receives (a response,
  \<^verbatim>\<open>undefined\<close> as \<open>None\<close>, or a rejection) and the state afterwards.
\<close>

definition fetch_handler :: "env \<Rightarrow> request \<Rightarrow> sw_state \<Rightarrow> response option result" where
  "fetch_handler e request s =
     (if req_pathname request = ''/share-data'' \<and> req_method request = ''POST''
      then (case handleSharedData e request s of (r, s1) \<Rightarrow> (Inr (Some r), s1))
      else if js_includes (req_pathname request) ''/api/health''
              \<or> js_includes (req_pathname request) ''/api/steps''
      then (case handleHealthAPI e request s of (r, s1) \<Rightarrow> (Inr (Some r), s1))
      else if js_includes (req_url request) ''/api/''
      then (let s1 = caches_open DATA_CACHE_NAME s in
            case network e request of
              Some response \<Rightarrow>
                (Inr (Some response),
                 if status response = 200
                 then cache_put DATA_CACHE_NAME (req_url request) response s1
                 else s1)
            | None \<Rightarrow> (Inr (cache_match (cache_of DATA_CACHE_NAME s1) request), s1))
      else (let s1 = caches_open CACHE_NAME s in
            case cache_match (cache_of CACHE_NAME s1) request of
              Some response \<Rightarrow> (Inr (Some response), s1)
            | None \<Rightarrow>
                (case network e request of
                   Some response \<Rightarrow> (Inr (Some response), s1)
                 | None \<Rightarrow> (Inl (TypeError, ''Failed to fetch''), s1))))"

text \<open>
  The \<^verbatim>\<open>activate\<close> handler: the loop over \<^verbatim>\<open>caches.keys()\<close>. Its call of
  \<^verbatim>\<open>self.clients.claim()\<close> makes the worker the controller of the open pages, which shows
  in what \<^verbatim>\<open>matchAll\<close> returns in later events and not in this state.
\<close>

definition activate_handler :: "sw_state \<Rightarrow> sw_state" where
  "activate_handler s =
     fold (\<lambda>key s.
             if key \<noteq> CACHE_NAME \<and> key \<noteq> DATA_CACHE_NAME \<and> key \<noteq> HEALTH_CACHE_NAME
             then caches_delete key s
             else s)
          (map fst (caches s)) s"

text \<open>
  The \<^verbatim>\<open>message\<close> handler, as far as it changes the state. The promises it starts are not
  awaited, so a rejection is dropped; the replies on \<^verbatim>\<open>event.ports[0]\<close>, the registration
  of a sync and the scheduling of a notification leave the state alone.
\<close>

definition message_handler :: "env \<Rightarrow> jsval \<Rightarrow> sw_state \<Rightarrow> sw_state" where
  "message_handler e data s =
     (if truthy data \<and> truthy (field data ''type'')
      then (let message_type = field data ''type'' in
            if message_type = JStr ''SAVE_STEPS_DATA''
            then (case saveToStore e STORES_STEPS (field data ''data'') s of
                    (Inl err, s1) \<Rightarrow> s1
                  | (Inr saved, s1) \<Rightarrow> updateQuestProgress e s1)
            else if message_type = JStr ''SAVE_HEALTH_DATA''
            then snd (saveToStore e STORES_HEALTH_DATA (field data ''data'') s)
            else if message_type = JStr ''SAVE_QUEST_DATA''
            then snd (saveToStore e STORES_QUESTS (field data ''data'') s)
            else if message_type = JStr ''GET_STEPS_DATA''
            then snd (getAllFromStore STORES_STEPS s)
            else if message_type = JStr ''GET_QUEST_DATA''
            then snd (getAllFromStore STORES_QUESTS s)
            else if message_type = JStr ''UPDATE_QUEST_PROGRESS''
            then updateQuestProgress e s
            else s)
      else s)"

section \<open>States and environments used as examples\<close>

text \<open>A worker that was just installed: no database, no cache, no message.\<close>

definition fresh_install :: sw_state where
  "fresh_install = \<lparr>idb = None, caches = [], posted = []\<rparr>"

text \<open>The same worker after its database was opened for the first time.\<close>

definition opened :: sw_state where
  "opened = snd (initDB fresh_install)"

text \<open>
  An environment on 2 January 2024, 03:00 UTC, in a time zone five hours behind UTC, where
  the local date is still 1 January. It is offline, one page is open, and its
  \<^verbatim>\<open>JSON.parse\<close> accepts no text (the texts handed to it in the examples are not JSON).
\<close>

definition offline :: env where
  "offline =
     \<lparr>now = 1704164400000,
      toISOString = ''2024-01-02T03:00:00.000Z'',
      local_date = ''2024-01-01'',
      JSON_parse = (\<lambda>text. Inl (SyntaxError, ''Unexpected token'')),
      network = (\<lambda>request. None),
      matchAll = [1],
      Number_of = (\<lambda>v. JNaN),
      plus_of = (\<lambda>a b. JNaN)\<rparr>"

text \<open>The same environment with a network that answers every request with status 200.\<close>

definition online :: env where
  "online =
     offline\<lparr>network := (\<lambda>request. Some \<lparr>status = 200, headers = [], content = Json (JArr [] [])\<rparr>)\<rparr>"

text \<open>A request to an API path that is neither the share target nor the health API.\<close>

definition get_quests :: request where
  "get_quests =
     \<lparr>req_url = ''https://quests.example/api/quests'', req_method = ''GET'',
      req_pathname = ''/api/quests'', req_search = [], req_body = [], req_form = None\<rparr>"

definition post_quests :: request where
  "post_quests = get_quests\<lparr>req_method := ''POST''\<rparr>"

text \<open>A POST to \<^verbatim>\<open>/api/steps\<close> whose body is not JSON.\<close>

definition bad_post :: request where
  "bad_post =
     \<lparr>req_url = ''https://quests.example/api/steps'', req_method = ''POST'',
      req_pathname = ''/api/steps'', req_search = [], req_body = ''{steps: '', req_form = None\<rparr>"

text \<open>A share with a title only, and a share of two lines of delimited text.\<close>

definition share_title :: request where
  "share_title =
     \<lparr>req_url = ''https://quests.example/share-data'', req_method = ''POST'',
      req_pathname = ''/share-data'', req_search = [], req_body = [],
      req_form = Some [(''title'', FString ''My walk'')]\<rparr>"

definition csv_two_lines :: string where
  "csv_two_lines = ''2024-01-01,500'' @ [CHR 0x0A] @ ''2024-01-02,750''"

definition share_csv :: request where
  "share_csv =
     \<lparr>req_url = ''https://quests.example/share-data'', req_method = ''POST'',
      req_pathname = ''/share-data'', req_search = [], req_body = [],
      req_form = Some [(''text'', FString csv_two_lines)]\<rparr>"

text \<open>
  A fitness quest with a target of 100 steps, and the state after a page has saved it and
  then saved 500 steps for the day of the environment \<open>offline\<close>.
\<close>

definition fitness_quest :: jsval where
  "fitness_quest =
     JObj [(''title'', JStr ''Walk''), (''category'', JStr ''fitness''),
           (''target'', JObj [(''steps'', JNum 100)]),
           (''progress'', JNum 0), (''completed'', JBool False)]"

definition walked :: sw_state where
  "walked =
     message_handler offline
       (JObj [(''type'', JStr ''SAVE_STEPS_DATA''),
              (''data'', JObj [(''date'', JStr ''2024-01-02''), (''steps'', JNum 500)])])
       (message_handler offline
          (JObj [(''type'', JStr ''SAVE_QUEST_DATA''), (''data'', fitness_quest)])
          fresh_install)"

text \<open>A quest of another category whose progress is above its target, as a page may save it.\<close>

definition reading_quest :: jsval where
  "reading_quest =
     JObj [(''title'', JStr ''Read''), (''category'', JStr ''reading''),
           (''target'', JObj [(''steps'', JNum 100)]),
           (''progress'', JNum 500), (''completed'', JBool False)]"

text \<open>
  The invariant of claim C4 in the words of the specification: a quest with a numeric
  \<^verbatim>\<open>target.steps\<close> has a progress that does not exceed it, and is completed exactly when
  its progress reaches it.
\<close>

definition quest_within_target :: "jsval \<Rightarrow> bool" where
  "quest_within_target q =
     (case num_of (field (field q ''target'') ''steps'') of
        None \<Rightarrow> True
      | Some t \<Rightarrow>
          (case num_of (field q ''progress'') of
             None \<Rightarrow> False
           | Some p \<Rightarrow> p \<le> t \<and> field q ''completed'' = JBool (t \<le> p)))"











definition current_cache :: "string \<Rightarrow> bool" where
  "current_cache name = (name = CACHE_NAME \<or> name = DATA_CACHE_NAME \<or> name = HEALTH_CACHE_NAME)"

section \<open>Cache eviction on activation\<close>

lemma not_current_cache:
  "(key \<noteq> CACHE_NAME \<and> key \<noteq> DATA_CACHE_NAME \<and> key \<noteq> HEALTH_CACHE_NAME) = (\<not> current_cache key)"
  by (simp add: current_cache_def)

lemma activate_fold:
  "fold (\<lambda>key s. if \<not> current_cache key then caches_delete key s else s) ks s
   = s\<lparr>caches := filter (\<lambda>nc. current_cache (fst nc) \<or> fst nc \<notin> set ks) (caches s)\<rparr>"
proof (induction ks arbitrary: s)
  case Nil
  then show ?case by simp
next
  case (Cons k ks)
  show ?case
  proof (cases "current_cache k")
    case True
    have "filter (\<lambda>nc. current_cache (fst nc) \<or> fst nc \<notin> set ks) (caches s)
          = filter (\<lambda>nc. current_cache (fst nc) \<or> fst nc \<notin> set (k # ks)) (caches s)"
      using True by (intro filter_cong refl) auto
    with True show ?thesis
      by (simp add: Cons.IH)
  next
    case False
    have "filter (\<lambda>nc. current_cache (fst nc) \<or> fst nc \<notin> set ks) (filter (\<lambda>nc. fst nc \<noteq> k) (caches s))
          = filter (\<lambda>nc. current_cache (fst nc) \<or> fst nc \<notin> set (k # ks)) (caches s)"
      using False unfolding filter_filter by (intro filter_cong refl) auto
    with False show ?thesis
      by (simp add: Cons.IH caches_delete_def)
  qed
qed

lemma map_of_filter_fst:
  "map_of (filter (\<lambda>nc. P (fst nc)) xs) k = (if P k then map_of xs k else None)"
  by (induction xs) auto

lemma activate_handler_filter:
  "activate_handler s = s\<lparr>caches := filter (\<lambda>nc. current_cache (fst nc)) (caches s)\<rparr>"
proof -
  have "filter (\<lambda>nc. current_cache (fst nc) \<or> fst nc \<notin> set (map fst (caches s))) (caches s)
        = filter (\<lambda>nc. current_cache (fst nc)) (caches s)"
    by (intro filter_cong refl) auto
  then show ?thesis
    by (simp add: activate_handler_def not_current_cache activate_fold)
qed

text \<open>
  Claim C8. After the activate handler, the caches that remain are exactly those of the
  state before whose name is one of \<^verbatim>\<open>CACHE_NAME\<close>, \<^verbatim>\<open>DATA_CACHE_NAME\<close> and
  \<^verbatim>\<open>HEALTH_CACHE_NAME\<close>, in their order and with their contents; nothing else of the state
  changes. So a cache under any other name is gone, and a lookup of one of the three names
  finds what it found before.
\<close>

theorem activate_handler_evicts_old_caches:
  "activate_handler s =
     s\<lparr>caches := filter (\<lambda>nc. fst nc = CACHE_NAME \<or> fst nc = DATA_CACHE_NAME \<or> fst nc = HEALTH_CACHE_NAME)
                     (caches s)\<rparr>
   \<and> map_of (caches (activate_handler s)) name =
       (if name = CACHE_NAME \<or> name = DATA_CACHE_NAME \<or> name = HEALTH_CACHE_NAME
        then map_of (caches s) name else None)"
proof -
  have "map_of (caches (activate_handler s)) name = (if current_cache name then map_of (caches s) name else None)"
    by (simp add: activate_handler_filter map_of_filter_fst)
  then show ?thesis
    using activate_handler_filter [of s] by (simp add: current_cache_def)
qed

section \<open>The schema of the database\<close>

lemma STORES_members:
  "map_of STORES ''STEPS'' = Some STORES_STEPS"
  "map_of STORES ''HEALTH_DATA'' = Some STORES_HEALTH_DATA"
  "map_of STORES ''QUESTS'' = Some STORES_QUESTS"
  by (simp_all add: STORES_def STORES_STEPS_def STORES_HEALTH_DATA_def STORES_QUESTS_def)

lemma onupgradeneeded_first:
  "onupgradeneeded [] =
     [(''steps'', \<lparr>keyPath = ''id'', autoIncrement = True,
                   indexes = [(''date'', ''date'', False), (''timestamp'', ''timestamp'', False)],
                   keygen = 1, entries = []\<rparr>),
      (''healthData'', \<lparr>keyPath = ''id'', autoIncrement = True,
                        indexes = [(''type'', ''type'', False), (''date'', ''date'', False)],
                        keygen = 1, entries = []\<rparr>),
      (''quests'', \<lparr>keyPath = ''id'', autoIncrement = True,
                    indexes = [(''category'', ''category'', False), (''status'', ''status'', False)],
                    keygen = 1, entries = []\<rparr>),
      (''habits'', \<lparr>keyPath = ''id'', autoIncrement = True, indexes = [], keygen = 1, entries = []\<rparr>),
      (''achievements'', \<lparr>keyPath = ''id'', autoIncrement = True, indexes = [], keygen = 1, entries = []\<rparr>)]"
  by (simp add: onupgradeneeded_def STORES_def createObjectStore_def STORES_STEPS_def
      STORES_HEALTH_DATA_def STORES_QUESTS_def)

text \<open>
  Claim C9, as stated, fails: the first open creates five stores, not four. The store
  \<^verbatim>\<open>achievements\<close> of the table \<^verbatim>\<open>STORES\<close> is created with the others.
\<close>

theorem initDB_four_collections_counterexample:
  "(case initDB fresh_install of
      (Inr db, s) \<Rightarrow> map fst (stores db)
    | (Inl err, s) \<Rightarrow> [])
   = [''steps'', ''healthData'', ''quests'', ''habits'', ''achievements'']"
  by (simp add: initDB_def fresh_install_def onupgradeneeded_first Let_def)

text \<open>
  Claim C9, amended. When the database does not exist yet, \<^verbatim>\<open>initDB\<close> creates it at
  version 1 with exactly five stores, \<^verbatim>\<open>steps\<close>, \<^verbatim>\<open>healthData\<close>, \<^verbatim>\<open>quests\<close>,
  \<^verbatim>\<open>habits\<close> and \<^verbatim>\<open>achievements\<close>, each keyed by \<^verbatim>\<open>id\<close> with a key generator
  starting at 1 and each empty, with the indexes (none of them unique) \<^verbatim>\<open>date\<close> and
  \<^verbatim>\<open>timestamp\<close> on \<^verbatim>\<open>steps\<close>, \<^verbatim>\<open>type\<close> and \<^verbatim>\<open>date\<close> on \<^verbatim>\<open>healthData\<close>,
  \<^verbatim>\<open>category\<close> and \<^verbatim>\<open>status\<close> on \<^verbatim>\<open>quests\<close>, and none on the other two; it returns
  this database and changes nothing else.
\<close>

theorem initDB_first_open:
  assumes "idb s = None"
  shows "initDB s =
    (Inr \<lparr>db_version = 1, stores =
       [(''steps'', \<lparr>keyPath = ''id'', autoIncrement = True,
                     indexes = [(''date'', ''date'', False), (''timestamp'', ''timestamp'', False)],
                     keygen = 1, entries = []\<rparr>),
        (''healthData'', \<lparr>keyPath = ''id'', autoIncrement = True,
                          indexes = [(''type'', ''type'', False), (''date'', ''date'', False)],
                          keygen = 1, entries = []\<rparr>),
        (''quests'', \<lparr>keyPath = ''id'', autoIncrement = True,
                      indexes = [(''category'', ''category'', False), (''status'', ''status'', False)],
                      keygen = 1, entries = []\<rparr>),
        (''habits'', \<lparr>keyPath = ''id'', autoIncrement = True, indexes = [], keygen = 1, entries = []\<rparr>),
        (''achievements'', \<lparr>keyPath = ''id'', autoIncrement = True, indexes = [], keygen = 1, entries = []\<rparr>)]\<rparr>,
     s\<lparr>idb := Some \<lparr>db_version = 1, stores = onupgradeneeded []\<rparr>\<rparr>)"
  using assms by (simp add: initDB_def onupgradeneeded_first DB_VERSION_def Let_def)

text \<open>The hypothesis of \<open>initDB_first_open\<close> holds for the worker that was just installed.\<close>

theorem initDB_first_open_witness:
  "idb fresh_install = None
   \<and> fst (initDB fresh_install) = Inr \<lparr>db_version = 1, stores = onupgradeneeded []\<rparr>
   \<and> length (onupgradeneeded []) = 5"
  using initDB_first_open [of fresh_install]
  by (simp add: fresh_install_def onupgradeneeded_first)

section \<open>Requests that leave the state alone\<close>

text \<open>
  Claim C5. When the body of a POST request to a path containing \<^verbatim>\<open>/api/steps\<close> does
  not parse as JSON, \<^verbatim>\<open>handleHealthAPI\<close>, and so the fetch handler, answers with status
  500 and a JSON body whose only field \<^verbatim>\<open>error\<close> is the message of the parse error, and
  the state afterwards is the state before: no record is inserted into the Steps
  collection or anywhere else.
\<close>

theorem post_steps_malformed_json:
  assumes "req_method request = ''POST''"
    and "js_includes (req_pathname request) ''/api/steps''"
    and "JSON_parse e (req_body request) = Inl err"
  shows "handleHealthAPI e request s =
           (\<lparr>status = 500, headers = [(''Content-Type'', ''application/json'')],
             content = Json (JObj [(''error'', JStr (message err))])\<rparr>, s)
         \<and> fetch_handler e request s =
           (Inr (Some \<lparr>status = 500, headers = [(''Content-Type'', ''application/json'')],
                       content = Json (JObj [(''error'', JStr (message err))])\<rparr>), s)"
proof -
  have api: "handleHealthAPI e request s =
           (\<lparr>status = 500, headers = [(''Content-Type'', ''application/json'')],
             content = Json (JObj [(''error'', JStr (message err))])\<rparr>, s)"
    using assms(1,3) by (simp add: handleHealthAPI_def await_def)
  have "req_pathname request \<noteq> ''/share-data''"
    using assms(2) by auto
  then show ?thesis
    using api assms(2) by (simp add: fetch_handler_def)
qed

text \<open>The hypotheses hold for the request \<open>bad_post\<close> in the environment \<open>offline\<close>.\<close>

theorem post_steps_malformed_json_witness:
  "req_method bad_post = ''POST''
   \<and> js_includes (req_pathname bad_post) ''/api/steps''
   \<and> JSON_parse offline (req_body bad_post) = Inl (SyntaxError, ''Unexpected token'')
   \<and> fst (fetch_handler offline bad_post opened) =
        Inr (Some \<lparr>status = 500, headers = [(''Content-Type'', ''application/json'')],
                    content = Json (JObj [(''error'', JStr ''Unexpected token'')])\<rparr>)
   \<and> snd (fetch_handler offline bad_post opened) = opened"
  using post_steps_malformed_json [of bad_post offline "(SyntaxError, ''Unexpected token'')" opened]
  by (simp add: bad_post_def offline_def message_def)

text \<open>
  Claim C10. When a POST to \<^verbatim>\<open>/share-data\<close> carries form data with neither an entry
  \<^verbatim>\<open>text\<close> nor an entry \<^verbatim>\<open>healthData\<close>, \<^verbatim>\<open>handleSharedData\<close>, and so the fetch
  handler, answers with the redirect to \<^verbatim>\<open>/\<close> with status 302, and the state afterwards
  is the state before: the database is untouched and no message is posted to any page.
\<close>

theorem share_without_data:
  assumes "req_pathname request = ''/share-data''"
    and "req_method request = ''POST''"
    and "req_form request = Some formData"
    and "map_of formData ''text'' = None"
    and "map_of formData ''healthData'' = None"
  shows "handleSharedData e request s = (redirect ''/'' 302, s)
         \<and> fetch_handler e request s = (Inr (Some (redirect ''/'' 302)), s)
         \<and> status (redirect ''/'' 302) = 302
         \<and> headers (redirect ''/'' 302) = [(''Location'', ''/'')]
         \<and> idb (snd (handleSharedData e request s)) = idb s
         \<and> posted (snd (handleSharedData e request s)) = posted s"
proof -
  have "handleSharedData e request s = (redirect ''/'' 302, s)"
    using assms(3-5) by (simp add: handleSharedData_def await_def form_truthy_def)
  then show ?thesis
    using assms(1,2) by (simp add: fetch_handler_def redirect_def)
qed

text \<open>The hypotheses hold for a share that carries a title only.\<close>

theorem share_without_data_witness:
  "req_pathname share_title = ''/share-data''
   \<and> req_method share_title = ''POST''
   \<and> req_form share_title = Some [(''title'', FString ''My walk'')]
   \<and> map_of [(''title'', FString ''My walk'')] ''text'' = None
   \<and> map_of [(''title'', FString ''My walk'')] ''healthData'' = None
   \<and> fetch_handler offline share_title walked =
        (Inr (Some \<lparr>status = 302, headers = [(''Location'', ''/'')], content = Text []\<rparr>), walked)"
  using share_without_data [of share_title "[(''title'', FString ''My walk'')]" offline walked]
  by (simp add: share_title_def redirect_def)

section \<open>Quest reconciliation as the code runs it\<close>

lemma initDB_cases:
  "(\<exists>err. initDB s = (Inl err, s))
   \<or> (\<exists>db. initDB s = (Inr db, s\<lparr>idb := Some db\<rparr>) \<and> db_version db = DB_VERSION)"
  by (auto simp: initDB_def Let_def split: option.splits)


lemma initDB_again:
  assumes "initDB s = (Inr db, s1)"
  shows "initDB s1 = (Inr db, s1)"
proof -
  from assms initDB_cases [of s] have "s1 = s\<lparr>idb := Some db\<rparr>" and "db_version db = DB_VERSION"
    by auto
  then show ?thesis
    by (simp add: initDB_def)
qed

lemma initDB_twice: "snd (initDB (snd (initDB s))) = snd (initDB s)"
proof (cases "initDB s")
  case (Pair r s1)
  show ?thesis
  proof (cases r)
    case (Inl err)
    with Pair initDB_cases [of s] have "s1 = s" by auto
    with Pair show ?thesis by simp
  next
    case (Inr db)
    with Pair show ?thesis by (simp add: initDB_again)
  qed
qed

text \<open>No binding of \<^verbatim>\<open>storeName\<close> is in scope in \<^verbatim>\<open>getStepsByDateRange\<close>.\<close>

lemma storeName_unbound:
  "lookup_identifier (scope_getStepsByDateRange startDate endDate) ''storeName''
   = Inl (ReferenceError, ''storeName is not defined'')"
  by (simp add: lookup_identifier_def scope_getStepsByDateRange_def)

text \<open>So the date range query rejects on every state, after it has opened the database.\<close>

lemma getStepsByDateRange_rejects:
  "\<exists>err. getStepsByDateRange startDate endDate s = (Inl err, snd (initDB s))"
proof (cases "initDB s")
  case (Pair r s1)
  show ?thesis
  proof (cases r)
    case (Inl err)
    with Pair show ?thesis
      by (simp add: getStepsByDateRange_def await_def)
  next
    case (Inr db)
    with Pair show ?thesis
      by (cases "objectStore db STORES_STEPS")
         (simp_all add: getStepsByDateRange_def await_def storeName_unbound)
  qed
qed

text \<open>And a run of \<^verbatim>\<open>updateQuestProgress\<close> does no more than open the database.\<close>

lemma updateQuestProgress_opens:
  "updateQuestProgress e s = snd (initDB s)"
proof (cases "initDB s")
  case (Pair r s1)
  show ?thesis
  proof (cases r)
    case (Inl err)
    with Pair show ?thesis
      by (simp add: updateQuestProgress_def getAllFromStore_def await_def)
  next
    case (Inr db)
    with Pair have again: "initDB s1 = (Inr db, s1)"
      by (simp add: initDB_again)
    obtain err where "getStepsByDateRange (today e) (today e) s1 = (Inl err, s1)"
      using getStepsByDateRange_rejects [of "today e" "today e" s1] again by auto
    with Pair Inr show ?thesis
      by (simp add: updateQuestProgress_def getAllFromStore_def await_def split: sum.splits)
  qed
qed

lemmas store_eval = saveToStore_def await_def initDB_def fresh_install_def
  onupgradeneeded_def STORES_def createObjectStore_def STORES_STEPS_def
  STORES_HEALTH_DATA_def STORES_QUESTS_def DB_VERSION_def objectStore_def store_write_def
  store_record_def commit_def field_def is_object_def Let_def
  getAllFromStore_def store_getAll_def sort_by_def js_or_def

text \<open>
  Claim C1 on the code: in the state \<open>walked\<close> the Steps collection holds 500 steps dated
  today and the Quests collection holds a fitness quest with a target of 100 steps. The
  claim asks for progress 100 and completed true after one run. The run ends in
  \<^verbatim>\<open>getStepsByDateRange\<close> with the ReferenceError for \<^verbatim>\<open>storeName\<close>, which
  \<^verbatim>\<open>updateQuestProgress\<close> catches: the state is unchanged and the quest still has progress
  0 and is not completed.
\<close>

theorem reconciliation_leaves_quest_unchanged:
  "today offline = ''2024-01-02''
   \<and> fst (getAllFromStore STORES_STEPS walked) =
       Inr [JObj [(''date'', JStr ''2024-01-02''), (''steps'', JNum 500),
                  (''timestamp'', JNum 1704164400000), (''id'', JNum 1)]]
   \<and> fst (getStepsByDateRange (today offline) (today offline) walked) =
       Inl (ReferenceError, ''storeName is not defined'')
   \<and> updateQuestProgress offline walked = walked
   \<and> fst (getAllFromStore STORES_QUESTS (updateQuestProgress offline walked)) =
       Inr [JObj [(''title'', JStr ''Walk''), (''category'', JStr ''fitness''),
                  (''target'', JObj [(''steps'', JNum 100)]),
                  (''progress'', JNum 0), (''completed'', JBool False),
                  (''timestamp'', JNum 1704164400000), (''id'', JNum 1)]]"
  by (simp add: walked_def message_handler_def fitness_quest_def offline_def today_def
      updateQuestProgress_opens getStepsByDateRange_def storeName_unbound store_eval)

text \<open>
  Claim C6. A second run of \<^verbatim>\<open>updateQuestProgress\<close>, at whatever time, leaves the state
  as the first run left it, and so the Quests collection and the progress and completed
  values of every quest in it.
\<close>

theorem updateQuestProgress_twice:
  "updateQuestProgress e2 (updateQuestProgress e1 s) = updateQuestProgress e1 s
   \<and> fst (getAllFromStore STORES_QUESTS (updateQuestProgress e2 (updateQuestProgress e1 s)))
       = fst (getAllFromStore STORES_QUESTS (updateQuestProgress e1 s))"
  by (simp add: updateQuestProgress_opens initDB_twice)

section \<open>The recomputation of one quest\<close>

lemma map_of_assign: "map_of (assign n v fs) k = (if k = n then Some v else map_of fs k)"
  by (induction fs) auto

lemma assign_same: "map_of fs n = Some v \<Longrightarrow> assign n v fs = fs"
  by (induction fs) (auto split: if_splits)

lemma field_set_prop:
  "set_prop q n v = Inr q1 \<Longrightarrow> is_object q \<Longrightarrow> field q1 k = (if k = n then v else field q k)"
  by (cases q) (auto simp: field_def is_object_def map_of_assign)

lemma set_prop_object: "is_object q \<Longrightarrow> \<exists>q1. set_prop q n v = Inr q1 \<and> is_object q1"
  by (cases q) (auto simp: is_object_def)

lemma field_defined_object: "field q k \<noteq> Undefined \<Longrightarrow> is_object q"
  by (cases q) (auto simp: field_def is_object_def)

text \<open>
  The body of the loop is idempotent: applied to the quest it has produced, with the same
  total, it produces the same quest again.
\<close>

lemma recomputeQuest_again:
  assumes "recomputeQuest e totalSteps quest = Inr (q, updated)"
  shows "recomputeQuest e totalSteps q = Inr (q, updated)"
  using assms
  by (cases quest)
     (auto simp: recomputeQuest_def field_def Let_def map_of_assign assign_same split: if_splits)

text \<open>
  Claim C4, as stated, fails: the bound is not an invariant of the stored quests. A page
  can save, through the message \<^verbatim>\<open>SAVE_QUEST_DATA\<close>, a quest of the category
  \<^verbatim>\<open>reading\<close> with a target of 100 steps, progress 500 and completed false. It is stored
  as it is, and reconciliation does not select quests of that category.
\<close>

theorem saved_quest_counterexample:
  "fst (getAllFromStore STORES_QUESTS
          (message_handler offline
             (JObj [(''type'', JStr ''SAVE_QUEST_DATA''), (''data'', reading_quest)]) fresh_install)) =
     Inr [JObj [(''title'', JStr ''Read''), (''category'', JStr ''reading''),
                (''target'', JObj [(''steps'', JNum 100)]),
                (''progress'', JNum 500), (''completed'', JBool False),
                (''timestamp'', JNum 1704164400000), (''id'', JNum 1)]]
   \<and> \<not> quest_within_target
         (JObj [(''title'', JStr ''Read''), (''category'', JStr ''reading''),
                (''target'', JObj [(''steps'', JNum 100)]),
                (''progress'', JNum 500), (''completed'', JBool False),
                (''timestamp'', JNum 1704164400000), (''id'', JNum 1)])
   \<and> recomputeQuest offline (JNum 500)
         (JObj [(''title'', JStr ''Read''), (''category'', JStr ''reading''),
                (''target'', JObj [(''steps'', JNum 100)]),
                (''progress'', JNum 500), (''completed'', JBool False),
                (''timestamp'', JNum 1704164400000), (''id'', JNum 1)]) =
       Inr (JObj [(''title'', JStr ''Read''), (''category'', JStr ''reading''),
                  (''target'', JObj [(''steps'', JNum 100)]),
                  (''progress'', JNum 500), (''completed'', JBool False),
                  (''timestamp'', JNum 1704164400000), (''id'', JNum 1)], False)"
  by (simp add: message_handler_def reading_quest_def offline_def quest_within_target_def
      num_of_def recomputeQuest_def store_eval)

text \<open>
  Claim C4, amended. The recomputation step of reconciliation, applied with a numeric
  total of today's steps \<open>n\<close> to a quest whose category is \<^verbatim>\<open>fitness\<close> or whose type is
  \<^verbatim>\<open>steps\<close> and whose \<^verbatim>\<open>target.steps\<close> is a number \<open>t\<close> other than 0, marks the quest
  as updated and leaves it with progress \<open>min n t\<close>, which does not exceed \<open>t\<close>, and with
  completed true exactly when that progress reaches \<open>t\<close>; the target is unchanged. In
  particular, when \<open>n\<close> is at least \<open>t\<close> the progress is \<open>t\<close> and completed is true.
\<close>

theorem recomputeQuest_bound:
  assumes "field quest ''category'' = JStr ''fitness'' \<or> field quest ''type'' = JStr ''steps''"
    and "field (field quest ''target'') ''steps'' = JNum t"
    and "t \<noteq> 0"
  shows "case recomputeQuest e (JNum n) quest of
           Inl err \<Rightarrow> False
         | Inr (q, updated) \<Rightarrow>
             updated \<and> field q ''progress'' = JNum (min n t) \<and> min n t \<le> t
             \<and> field q ''completed'' = JBool (t \<le> min n t)
             \<and> field (field q ''target'') ''steps'' = JNum t
             \<and> quest_within_target q
             \<and> (t \<le> n \<longrightarrow> field q ''progress'' = JNum t \<and> field q ''completed'' = JBool True)"
proof -
  from assms(1)
  have "field quest ''category'' \<noteq> Undefined \<or> field quest ''type'' \<noteq> Undefined"
    by auto
  then have obj: "is_object quest"
    by (auto dest: field_defined_object)
  then obtain category where cat:
    "get_prop quest ''category'' = Inr category" "field quest ''category'' = category"
    by (cases quest) (auto simp: is_object_def field_def)
  from assms(2) have target: "truthy (field quest ''target'')"
    by (cases "field quest ''target''") (auto simp: field_def)
  from obj obtain q1 where q1: "set_prop quest ''progress'' (JNum (min n t)) = Inr q1" "is_object q1"
    using set_prop_object by blast
  then obtain q2 where q2: "set_prop q1 ''completed'' (JBool (t \<le> min n t)) = Inr q2"
    using set_prop_object by blast
  have f1: "field q1 k = (if k = ''progress'' then JNum (min n t) else field quest k)" for k
    using field_set_prop [OF q1(1) obj] .
  have f2: "field q2 k = (if k = ''completed'' then JBool (t \<le> min n t) else field q1 k)" for k
    using field_set_prop [OF q2 q1(2)] .
  have "recomputeQuest e (JNum n) quest = Inr (q2, True)"
    using assms cat target q1 q2
    by (simp add: recomputeQuest_def Let_def Math_min_def ToNumber_def num_of_def js_ge_def f1)
  then show ?thesis
    by (simp add: f1 f2 assms(2) quest_within_target_def num_of_def min_def)
qed

text \<open>The hypotheses hold for the fitness quest with a target of 100 steps, on 500 steps.\<close>

theorem recomputeQuest_bound_witness:
  "field fitness_quest ''category'' = JStr ''fitness''
   \<and> field (field fitness_quest ''target'') ''steps'' = JNum 100
   \<and> (100 :: int) \<noteq> 0
   \<and> recomputeQuest offline (JNum 500) fitness_quest =
       Inr (JObj [(''title'', JStr ''Walk''), (''category'', JStr ''fitness''),
                  (''target'', JObj [(''steps'', JNum 100)]),
                  (''progress'', JNum 100), (''completed'', JBool True)], True)"
proof -
  have category: "field fitness_quest ''category'' = JStr ''fitness'' \<or> field fitness_quest ''type'' = JStr ''steps''"
    by (simp add: fitness_quest_def field_def)
  have target: "field (field fitness_quest ''target'') ''steps'' = JNum 100"
    by (simp add: fitness_quest_def field_def)
  have result: "recomputeQuest offline (JNum 500) fitness_quest =
       Inr (JObj [(''title'', JStr ''Walk''), (''category'', JStr ''fitness''),
                  (''target'', JObj [(''steps'', JNum 100)]),
                  (''progress'', JNum 100), (''completed'', JBool True)], True)"
    by (simp add: recomputeQuest_def fitness_quest_def field_def Let_def Math_min_def
        ToNumber_def num_of_def js_ge_def)
  from recomputeQuest_bound [OF category target, where e = offline and n = 500] result
  show ?thesis
    by (simp add: fitness_quest_def field_def)
qed

section \<open>Network first for the other API requests\<close>

lemma cache_of_caches_open: "cache_of name (caches_open name s) = cache_of name s"
proof (cases "name \<in> set (map fst (caches s))")
  case True
  then show ?thesis by (simp add: caches_open_def)
next
  case False
  then have "map_of (caches s) name = None"
    by (simp add: map_of_eq_None_iff)
  with False show ?thesis
    by (simp add: caches_open_def cache_of_def map_add_def)
qed

lemma caches_open_present: "name \<in> set (map fst (caches (caches_open name s)))"
  by (simp add: caches_open_def)

lemma map_of_replace_response: "map_of (replace_response u r c) u = Some r"
  by (induction c) auto

lemma map_of_map_named:
  "name \<in> set (map fst cs) \<Longrightarrow>
   map_of (map (\<lambda>nc. if fst nc = name then (fst nc, f (snd nc)) else nc) cs) name
   = map_option f (map_of cs name)"
  by (induction cs) auto

lemma cache_of_cache_put:
  assumes "name \<in> set (map fst (caches s))"
  shows "map_of (cache_of name (cache_put name u r s)) u = Some r"
proof -
  from assms obtain c where "map_of (caches s) name = Some c"
    by (metis map_of_eq_None_iff not_Some_eq set_map)
  with assms show ?thesis
    by (simp add: cache_of_def cache_put_def map_of_map_named map_of_replace_response)
qed

lemma stored_after_put:
  "map_of (cache_of name (cache_put name u r (caches_open name s))) u = Some r"
  using cache_of_cache_put [OF caches_open_present] .

text \<open>
  Claim C7, as stated, fails for a request whose method is not GET. A POST to
  \<^verbatim>\<open>/api/quests\<close> that is answered with status 200 is stored under its URL. When the same
  POST is made again and the fetch fails, \<^verbatim>\<open>cache.match(event.request)\<close> does not match a
  POST request, and the handler returns \<^verbatim>\<open>undefined\<close> although a copy is stored for the
  URL.
\<close>

theorem api_fallback_counterexample:
  "fst (fetch_handler online post_quests fresh_install)
     = Inr (Some \<lparr>status = 200, headers = [], content = Json (JArr [] [])\<rparr>)
   \<and> map_of (cache_of DATA_CACHE_NAME (snd (fetch_handler online post_quests fresh_install)))
        (req_url post_quests)
     = Some \<lparr>status = 200, headers = [], content = Json (JArr [] [])\<rparr>
   \<and> network offline post_quests = None
   \<and> fst (fetch_handler offline post_quests (snd (fetch_handler online post_quests fresh_install)))
     = Inr None"
  by (simp add: fetch_handler_def post_quests_def get_quests_def online_def offline_def
      fresh_install_def Let_def caches_open_def cache_put_def cache_of_def cache_match_def
      DATA_CACHE_NAME_def)

text \<open>
  Claim C7, amended. For a request whose URL contains \<^verbatim>\<open>/api/\<close> and that is neither the
  share target nor a health or steps request: when the fetch succeeds, the handler returns
  the live response, and when its status is 200 the data cache afterwards holds that
  response under the URL of the request (in place of an earlier copy); when the fetch
  fails and the method is GET, the handler returns the copy that the data cache holds for
  the URL, or nothing when it holds none; when the fetch fails and the method is not GET,
  it returns nothing.
\<close>

theorem api_network_first:
  assumes "\<not> (req_pathname request = ''/share-data'' \<and> req_method request = ''POST'')"
    and "\<not> (js_includes (req_pathname request) ''/api/health''
             \<or> js_includes (req_pathname request) ''/api/steps'')"
    and "js_includes (req_url request) ''/api/''"
  shows "case network e request of
           Some live \<Rightarrow>
             fst (fetch_handler e request s) = Inr (Some live)
             \<and> (status live = 200 \<longrightarrow>
                  map_of (cache_of DATA_CACHE_NAME (snd (fetch_handler e request s))) (req_url request)
                  = Some live)
         | None \<Rightarrow>
             fst (fetch_handler e request s) =
               Inr (if req_method request = ''GET''
                    then map_of (cache_of DATA_CACHE_NAME s) (req_url request)
                    else None)"
  using assms
  by (auto simp: fetch_handler_def Let_def cache_match_def cache_of_caches_open
      stored_after_put split: option.splits)

text \<open>The hypotheses hold for a GET of \<^verbatim>\<open>/api/quests\<close>, here with a network that answers.\<close>

theorem api_network_first_witness:
  "\<not> (req_pathname get_quests = ''/share-data'' \<and> req_method get_quests = ''POST'')
   \<and> \<not> (js_includes (req_pathname get_quests) ''/api/health''
          \<or> js_includes (req_pathname get_quests) ''/api/steps'')
   \<and> js_includes (req_url get_quests) ''/api/''
   \<and> fst (fetch_handler online get_quests fresh_install)
       = Inr (Some \<lparr>status = 200, headers = [], content = Json (JArr [] [])\<rparr>)
   \<and> map_of (cache_of DATA_CACHE_NAME (snd (fetch_handler online get_quests fresh_install)))
        (req_url get_quests)
       = Some \<lparr>status = 200, headers = [], content = Json (JArr [] [])\<rparr>"
  using api_network_first [of get_quests online fresh_install]
  by (simp add: get_quests_def online_def offline_def)

section \<open>Ingestion\<close>

lemma csv_not_empty: "csv_two_lines \<noteq> []"
  by (simp add: csv_two_lines_def)

lemma parse_csv:
  "parseHealthDataText e csv_two_lines =
     JArr [JObj [(''date'', JStr ''2024-01-02''), (''steps'', JNum 750), (''type'', JStr ''steps'')]] []"
  by (simp add: csv_two_lines_def parseHealthDataText_def csv_line_def enumerate_eq_zip trim_def
      is_space_def parseInt_def digit_val_def js_or_def Let_def)

text \<open>
  Claim C2, as stated, fails: shared as the entry \<^verbatim>\<open>text\<close> of a form, the two lines leave
  exactly one record in the Steps collection, the one of the second line. The first line
  is skipped as a header.
\<close>

theorem csv_two_records_counterexample:
  "fst (handleSharedData offline share_csv fresh_install) = redirect ''/'' 302
   \<and> fst (getAllFromStore STORES_STEPS (snd (handleSharedData offline share_csv fresh_install))) =
       Inr [JObj [(''date'', JStr ''2024-01-02''), (''steps'', JNum 750), (''source'', JStr ''shared''),
                  (''metadata'', JObj []), (''timestamp'', JNum 1704164400000), (''id'', JNum 1)]]"
  by (simp add: handleSharedData_def share_csv_def form_truthy_def parse_shared_def parse_csv
      csv_not_empty processHealthData_def processItem_def updateQuestProgress_opens store_eval
      offline_def broadcast_def)

text \<open>
  Claim C2, amended. The text of the two lines \<^verbatim>\<open>2024-01-01,500\<close> and
  \<^verbatim>\<open>2024-01-02,750\<close> is parsed to exactly one element, with the date \<^verbatim>\<open>2024-01-02\<close> and
  750 steps; processed on a fresh worker it yields exactly one Steps record, with that date,
  750 steps, the source \<^verbatim>\<open>shared\<close>, empty metadata, the current time as timestamp and
  the identifier 1.
\<close>

theorem csv_header_skipped:
  "parseHealthDataText e csv_two_lines =
     JArr [JObj [(''date'', JStr ''2024-01-02''), (''steps'', JNum 750), (''type'', JStr ''steps'')]] []
   \<and> fst (getAllFromStore STORES_STEPS
            (snd (processHealthData e (parseHealthDataText e csv_two_lines) fresh_install))) =
       Inr [JObj [(''date'', JStr ''2024-01-02''), (''steps'', JNum 750), (''source'', JStr ''shared''),
                  (''metadata'', JObj []), (''timestamp'', JNum (now e)), (''id'', JNum 1)]]"
  by (simp add: parse_csv processHealthData_def processItem_def updateQuestProgress_opens store_eval)



















end
